theory Spec2Isabelle
  imports Complex_Main
begin

text \<open>
  DevHub is a project dashboard for game studios: projects with tasks, budgets, a team and
  an activity log, kept in a hosted document database. Its logic is client-side
  aggregation. This theory embeds the parts that aggregate and write back: the React
  application (project progress, project and task forms, the budget overview), the budget
  view and the transaction form of \<open>script.js\<close>, and the budget view of the earlier copy
  of that script. The database, the clock and the locale are parameters of the handlers.
\<close>

section \<open>JavaScript values used by the dashboard\<close>

text \<open>
  The dashboard computes with JavaScript numbers. A finite number is modelled by the
  rational it denotes and \<open>NaN\<close> is kept as a value of its own, because the sources
  test for it with \<open>x || 0\<close>. The rounding error of binary floating point, the
  infinities and the negative zero are outside this model: every theorem below is about
  the exact arithmetic that the source expressions denote.
  Strings are HOL strings, one \<open>char\<close> per code unit.
\<close>

datatype jsnum = Num rat | NaN

text \<open>\<open>x || 0\<close> on a number: \<open>NaN\<close> and \<open>0\<close> are falsy.\<close>

fun or0 :: "jsnum \<Rightarrow> jsnum" where
  "or0 NaN = Num 0"
| "or0 (Num r) = (if r = 0 then Num 0 else Num r)"

text \<open>\<open>x || 0\<close> on a field that may be missing: \<open>undefined\<close> is falsy too.\<close>

fun field_or0 :: "jsnum option \<Rightarrow> jsnum" where
  "field_or0 None = Num 0"
| "field_or0 (Some x) = or0 x"

fun js_add :: "jsnum \<Rightarrow> jsnum \<Rightarrow> jsnum" where
  "js_add (Num a) (Num b) = Num (a + b)"
| "js_add _ _ = NaN"

fun js_sub :: "jsnum \<Rightarrow> jsnum \<Rightarrow> jsnum" where
  "js_sub (Num a) (Num b) = Num (a - b)"
| "js_sub _ _ = NaN"




fun js_le :: "jsnum \<Rightarrow> jsnum \<Rightarrow> bool" where
  "js_le (Num a) (Num b) = (a \<le> b)"
| "js_le _ _ = False"




subsection \<open>Decimal rendering: \<open>Number.prototype.toFixed\<close>\<close>







subsection \<open>\<open>String.prototype.trim\<close> and \<open>parseFloat\<close>\<close>

text \<open>White space and line terminators among the code units below 256.\<close>

definition is_ws :: "char \<Rightarrow> bool" where
  "is_ws c = (c \<in> set [CHR 0x09, CHR 0x0A, CHR 0x0B, CHR 0x0C, CHR 0x0D, CHR '' '', CHR 0xA0])"

definition trim :: "string \<Rightarrow> string" where
  "trim s = rev (dropWhile is_ws (rev (dropWhile is_ws s)))"

definition is_digit :: "char \<Rightarrow> bool" where
  "is_digit c = (c \<in> set ''0123456789'')"

definition digit_val :: "char \<Rightarrow> nat" where
  "digit_val c = of_char c - 48"

definition digits_val :: "string \<Rightarrow> nat" where
  "digits_val ds = foldl (\<lambda>acc c. 10 * acc + digit_val c) 0 ds"

text \<open>The exponent part \<open>e\<close>, \<open>e+\<close> or \<open>e-\<close> followed by at least one digit; 0 otherwise.\<close>

fun exponent_part :: "string \<Rightarrow> int" where
  "exponent_part (e # c # r) =
     (if e = CHR ''e'' \<or> e = CHR ''E'' then
        (if c = CHR ''-'' then
           (if takeWhile is_digit r = [] then 0 else - int (digits_val (takeWhile is_digit r)))
         else if c = CHR ''+'' then int (digits_val (takeWhile is_digit r))
         else int (digits_val (takeWhile is_digit (c # r))))
      else 0)"
| "exponent_part _ = 0"

definition pow10 :: "int \<Rightarrow> rat" where
  "pow10 e = (if e < 0 then 1 / 10 ^ nat (- e) else 10 ^ nat e)"

text \<open>
  \<open>parseFloat\<close> on a string: leading white space is skipped and the longest prefix that
  is a decimal literal (sign, digits, fraction, exponent) is read; without such a prefix
  the result is \<open>NaN\<close>. The literal \<open>Infinity\<close>, which a number input cannot hold, is
  outside the model of numbers and is read as \<open>NaN\<close> here.
\<close>

definition unsigned_literal :: "string \<Rightarrow> jsnum" where
  "unsigned_literal u =
     (let ip = takeWhile is_digit u;
          r1 = dropWhile is_digit u;
          fp = (case r1 of c # r \<Rightarrow> if c = CHR ''.'' then takeWhile is_digit r else [] | [] \<Rightarrow> []);
          r2 = (case r1 of c # r \<Rightarrow> if c = CHR ''.'' then dropWhile is_digit r else r1 | [] \<Rightarrow> [])
      in if ip = [] \<and> fp = [] then NaN
         else Num ((of_nat (digits_val ip) + of_nat (digits_val fp) / 10 ^ length fp)
                   * pow10 (exponent_part r2)))"

fun js_neg :: "jsnum \<Rightarrow> jsnum" where
  "js_neg NaN = NaN"
| "js_neg (Num r) = Num (- r)"

definition parseFloat :: "string \<Rightarrow> jsnum" where
  "parseFloat s =
     (case dropWhile is_ws s of
        [] \<Rightarrow> NaN
      | c # r \<Rightarrow> if c = CHR ''-'' then js_neg (unsigned_literal r)
                 else if c = CHR ''+'' then unsigned_literal r
                 else unsigned_literal (c # r))"


section \<open>The React application: shared data\<close>

text \<open>
  The values that \<open>useFirebase()\<close> hands to every component: the database handle
  (present or not), the signed-in user (\<open>None\<close> for \<open>null\<close>) with its \<open>uid\<close>, and the
  application id. A string is truthy when it is not empty.
\<close>

record firebase_ctx =
  db :: bool
  firebaseUser :: "string option"
  appId :: string

definition truthy :: "string \<Rightarrow> bool" where
  "truthy s = (s \<noteq> [])"

definition has_uid :: "firebase_ctx \<Rightarrow> bool" where
  "has_uid c = (case firebaseUser c of None \<Rightarrow> False | Some u \<Rightarrow> truthy u)"

definition uid :: "firebase_ctx \<Rightarrow> string" where
  "uid c = (case firebaseUser c of None \<Rightarrow> [] | Some u \<Rightarrow> u)"


record team_member =
  tm_userId :: string
  tm_role :: string
  tm_displayName :: string

record budget_category =
  cat_name :: string
  cat_allocatedAmount :: jsnum

record project =
  p_name :: string
  p_description :: string
  p_targetReleaseDate :: string
  p_initialBudget :: jsnum
  p_createdAt :: nat
  p_status :: string
  p_progress :: string
  p_teamMembers :: "team_member list"
  p_budgetCategories :: "budget_category list"

record task =
  t_name :: string
  t_description :: string
  t_assignee :: string
  t_dueDate :: "string option"
  t_priority :: string
  t_role :: string
  t_status :: string
  t_createdAt :: nat
  t_createdBy :: string

record task_update =
  u_name :: string
  u_description :: string
  u_assignee :: string
  u_dueDate :: "string option"
  u_priority :: string
  u_role :: string
  u_status :: string
  u_updatedAt :: nat

record activity_log =
  log_timestamp :: nat
  log_type :: string
  log_description :: string
  log_userId :: string

text \<open>
  The writes that the components send to the document database. The first argument of
  the writes below a project is the project id; \<open>UpdateTask\<close> also takes the task id.
\<close>

datatype db_write =
    AddProject project
  | AddActivityLog string activity_log
  | AddTask string task
  | UpdateTask string string task_update
  | UpdateProgress string string
  | UpdateInitialBudget string jsnum
  | UpdateBudgetCategories string "budget_category list"

text \<open>
  \<open>try { await w1; await w2; ... } catch\<close>: the writes are sent in order and the first
  one that the database rejects ends the sequence. Which writes the database accepts is
  not decided by this code, so it is a parameter.
\<close>

fun perform :: "(db_write \<Rightarrow> bool) \<Rightarrow> db_write list \<Rightarrow> db_write list \<times> bool" where
  "perform accepts [] = ([], True)"
| "perform accepts (w # ws) =
     (if accepts w then (w # fst (perform accepts ws), snd (perform accepts ws))
      else ([], False))"

section \<open>ProjectDetailView: the project progress effect\<close>







section \<open>CreateProjectForm\<close>

text \<open>How a handler ends: at its guard, at its validation, after its last write, or in its
  \<open>catch\<close> block when the database rejected a write.\<close>

datatype outcome = NotReady | ValidationError | Success | WriteFailed

definition quoted :: "string \<Rightarrow> string" where
  "quoted s = CHR 0x22 # s @ [CHR 0x22]"

record create_project_form =
  cp_projectName :: string
  cp_description :: string
  cp_targetReleaseDate :: string
  cp_initialBudget :: string

text \<open>The document of the first \<open>addDoc\<close>; \<open>now\<close> is the reading of \<open>new Date()\<close>.\<close>

definition new_project :: "firebase_ctx \<Rightarrow> nat \<Rightarrow> create_project_form \<Rightarrow> project" where
  "new_project c now f =
     \<lparr>p_name = cp_projectName f,
      p_description = cp_description f,
      p_targetReleaseDate = cp_targetReleaseDate f,
      p_initialBudget = or0 (parseFloat (cp_initialBudget f)),
      p_createdAt = now,
      p_status = ''Planning'',
      p_progress = ''0%'',
      p_teamMembers = [\<lparr>tm_userId = uid c, tm_role = ''Owner'', tm_displayName = ''You''\<rparr>],
      p_budgetCategories =
        [\<lparr>cat_name = ''General'', cat_allocatedAmount = or0 (parseFloat (cp_initialBudget f))\<rparr>]\<rparr>"

definition project_created_log :: "firebase_ctx \<Rightarrow> nat \<Rightarrow> create_project_form \<Rightarrow> activity_log" where
  "project_created_log c now f =
     \<lparr>log_timestamp = now,
      log_type = ''Project Created'',
      log_description = ''Project '' @ quoted (cp_projectName f) @ '' was created.'',
      log_userId = uid c\<rparr>"

text \<open>
  \<open>handleSubmit\<close> of the form. \<open>newId\<close> is the id that the database gives to the new
  project document, \<open>now1\<close> and \<open>now2\<close> are the two readings of the clock. The result is
  the list of writes that took place and how the handler ended.
\<close>

definition CreateProjectForm_handleSubmit ::
  "firebase_ctx \<Rightarrow> (db_write \<Rightarrow> bool) \<Rightarrow> string \<Rightarrow> nat \<Rightarrow> nat \<Rightarrow> create_project_form
     \<Rightarrow> db_write list \<times> outcome" where
  "CreateProjectForm_handleSubmit c accepts newId now1 now2 f =
     (if \<not> db c \<or> \<not> has_uid c then ([], NotReady)
      else (let r = perform accepts
                      [AddProject (new_project c now1 f),
                       AddActivityLog newId (project_created_log c now2 f)]
            in (fst r, if snd r then Success else WriteFailed)))"

section \<open>CreateTaskForm and TaskDetailModal\<close>

record create_task_form =
  ct_taskName :: string
  ct_description :: string
  ct_assignee :: string
  ct_dueDate :: string
  ct_priority :: string
  ct_role :: string

text \<open>
  \<open>new Date(d).toISOString()\<close> for the value \<open>d\<close> of a date input, which is a calendar
  date \<open>YYYY-MM-DD\<close> and is read as midnight UTC.
\<close>

definition toISOString :: "string \<Rightarrow> string" where
  "toISOString d = d @ ''T00:00:00.000Z''"

definition new_task :: "firebase_ctx \<Rightarrow> nat \<Rightarrow> create_task_form \<Rightarrow> task" where
  "new_task c now f =
     \<lparr>t_name = ct_taskName f,
      t_description = ct_description f,
      t_assignee = (if truthy (ct_assignee f) then ct_assignee f else ''Unassigned''),
      t_dueDate = (if truthy (ct_dueDate f) then Some (toISOString (ct_dueDate f)) else None),
      t_priority = ct_priority f,
      t_role = ct_role f,
      t_status = ''To Do'',
      t_createdAt = now,
      t_createdBy = uid c\<rparr>"

definition CreateTaskForm_handleSubmit ::
  "firebase_ctx \<Rightarrow> (db_write \<Rightarrow> bool) \<Rightarrow> string \<Rightarrow> nat \<Rightarrow> nat \<Rightarrow> create_task_form
     \<Rightarrow> db_write list \<times> outcome" where
  "CreateTaskForm_handleSubmit c accepts projectId now1 now2 f =
     (if \<not> db c \<or> \<not> has_uid c \<or> \<not> truthy projectId then ([], NotReady)
      else (let r = perform accepts
                      [AddTask projectId (new_task c now1 f),
                       AddActivityLog projectId
                         \<lparr>log_timestamp = now2, log_type = ''Task Created'',
                          log_description = ''New task '' @ quoted (ct_taskName f)
                             @ '' created under '' @ ct_role f @ '' role.'',
                          log_userId = uid c\<rparr>]
            in (fst r, if snd r then Success else WriteFailed)))"

text \<open>The state of the modal: the fetched task and the fields being edited.\<close>

record task_modal =
  md_task :: "task option"
  editName :: string
  editDescription :: string
  editAssignee :: string
  editDueDate :: string
  editPriority :: string
  editRole :: string
  editStatus :: string

definition rolesOptions :: "string list" where
  "rolesOptions = [''Scripting'', ''Building'', ''Modelling'', ''UI'', ''VFX'', ''General'']"

definition statusOptions :: "string list" where
  "statusOptions = [''To Do'', ''In Progress'', ''Ready for Review'', ''Completed'']"

definition priorityOptions :: "string list" where
  "priorityOptions = [''Low'', ''Medium'', ''High'', ''Urgent'']"

definition initial_modal :: task_modal where
  "initial_modal =
     \<lparr>md_task = None, editName = [], editDescription = [], editAssignee = [], editDueDate = [],
      editPriority = [], editRole = [], editStatus = []\<rparr>"

text \<open>
  What happens to the modal: the snapshot listener delivers the task document, the user
  types into a text field, or the user picks the \<open>i\<close>-th option of a select, whose
  options are the lists above.
\<close>

datatype modal_event =
    Snapshot task
  | SetEditName string
  | SetEditDescription string
  | SetEditAssignee string
  | SetEditDueDate string
  | SelectPriority nat
  | SelectRole nat
  | SelectStatus nat

fun modal_step :: "task_modal \<Rightarrow> modal_event \<Rightarrow> task_modal" where
  "modal_step m (Snapshot fetchedTask) =
     \<lparr>md_task = Some fetchedTask,
      editName = t_name fetchedTask,
      editDescription = t_description fetchedTask,
      editAssignee = t_assignee fetchedTask,
      editDueDate = (case t_dueDate fetchedTask of
                       None \<Rightarrow> []
                     | Some d \<Rightarrow> if truthy d then takeWhile (\<lambda>ch. ch \<noteq> CHR ''T'') d else []),
      editPriority = t_priority fetchedTask,
      editRole = t_role fetchedTask,
      editStatus = t_status fetchedTask\<rparr>"
| "modal_step m (SetEditName v) = m\<lparr>editName := v\<rparr>"
| "modal_step m (SetEditDescription v) = m\<lparr>editDescription := v\<rparr>"
| "modal_step m (SetEditAssignee v) = m\<lparr>editAssignee := v\<rparr>"
| "modal_step m (SetEditDueDate v) = m\<lparr>editDueDate := v\<rparr>"
| "modal_step m (SelectPriority i) =
     (if i < length priorityOptions then m\<lparr>editPriority := priorityOptions ! i\<rparr> else m)"
| "modal_step m (SelectRole i) =
     (if i < length rolesOptions then m\<lparr>editRole := rolesOptions ! i\<rparr> else m)"
| "modal_step m (SelectStatus i) =
     (if i < length statusOptions then m\<lparr>editStatus := statusOptions ! i\<rparr> else m)"

definition modal_run :: "modal_event list \<Rightarrow> task_modal" where
  "modal_run evs = foldl modal_step initial_modal evs"

definition edited_dueDate :: "task_modal \<Rightarrow> string option" where
  "edited_dueDate m = (if truthy (editDueDate m) then Some (toISOString (editDueDate m)) else None)"

definition task_update_of :: "nat \<Rightarrow> task_modal \<Rightarrow> task_update" where
  "task_update_of now m =
     \<lparr>u_name = editName m,
      u_description = editDescription m,
      u_assignee = editAssignee m,
      u_dueDate = edited_dueDate m,
      u_priority = editPriority m,
      u_role = editRole m,
      u_status = editStatus m,
      u_updatedAt = now\<rparr>"

definition mk_log :: "nat \<Rightarrow> string \<Rightarrow> string \<Rightarrow> string \<Rightarrow> activity_log" where
  "mk_log now ty descr user =
     \<lparr>log_timestamp = now, log_type = ty, log_description = descr, log_userId = user\<rparr>"

text \<open>
  The activity log entries that \<open>handleUpdateTask\<close> adds after the update: one when the
  status changed, one when the role changed, one when another detail changed. A single
  reading \<open>now\<close> stands for the clock readings of the handler.
\<close>

definition task_change_logs ::
  "firebase_ctx \<Rightarrow> string \<Rightarrow> nat \<Rightarrow> task \<Rightarrow> task_modal \<Rightarrow> db_write list" where
  "task_change_logs c projectId now task m =
     (let oldStatus = t_status task;
          oldRole = t_role task
      in (if oldStatus \<noteq> editStatus m
          then [AddActivityLog projectId (mk_log now ''Task Status Changed''
                  (''Task '' @ quoted (editName m) @ '' status changed from ''
                     @ quoted oldStatus @ '' to '' @ quoted (editStatus m) @ ''.'') (uid c))]
          else [])
         @ (if oldRole \<noteq> editRole m
            then [AddActivityLog projectId (mk_log now ''Task Role Changed''
                    (''Task '' @ quoted (editName m) @ '' role changed from ''
                       @ quoted oldRole @ '' to '' @ quoted (editRole m) @ ''.'') (uid c))]
            else [])
         @ (if t_name task \<noteq> editName m \<or> t_description task \<noteq> editDescription m
               \<or> t_assignee task \<noteq> editAssignee m \<or> t_dueDate task \<noteq> edited_dueDate m
               \<or> t_priority task \<noteq> editPriority m
            then [AddActivityLog projectId (mk_log now ''Task Details Updated''
                    (''Task '' @ quoted (editName m) @ '' details were updated.'') (uid c))]
            else []))"

text \<open>
  \<open>handleUpdateTask\<close>. Reading \<open>task.status\<close> of a task that was never fetched throws
  inside the \<open>try\<close> block, before any write.
\<close>

definition handleUpdateTask ::
  "firebase_ctx \<Rightarrow> (db_write \<Rightarrow> bool) \<Rightarrow> string \<Rightarrow> string \<Rightarrow> nat \<Rightarrow> task_modal
     \<Rightarrow> db_write list \<times> outcome" where
  "handleUpdateTask c accepts projectId taskId now m =
     (if \<not> db c \<or> \<not> has_uid c \<or> \<not> truthy projectId \<or> \<not> truthy taskId then ([], NotReady)
      else case md_task m of
        None \<Rightarrow> ([], WriteFailed)
      | Some task \<Rightarrow>
          (let r = perform accepts
                     (UpdateTask projectId taskId (task_update_of now m)
                      # task_change_logs c projectId now task m)
           in (fst r, if snd r then Success else WriteFailed)))"

text \<open>The task statuses that the specification enumerates.\<close>

definition spec_statuses :: "string list" where
  "spec_statuses = [''To Do'', ''In Progress'', ''Reviewing'', ''Completed'', ''Blocked'', ''Done'']"

text \<open>The statuses that a list of writes stores on tasks.\<close>

fun stored_status :: "db_write \<Rightarrow> string option" where
  "stored_status (AddTask pid t) = Some (t_status t)"
| "stored_status (UpdateTask pid tid u) = Some (u_status u)"
| "stored_status _ = None"

section \<open>BudgetOverview\<close>

text \<open>
  An expense document. \<open>AddExpenseForm\<close> writes \<open>parseFloat(amount)\<close> as its amount, a
  number or \<open>NaN\<close>; in a document from elsewhere the amount may be missing (\<open>None\<close> for
  \<open>undefined\<close>).
\<close>

record expense =
  e_description :: string
  e_amount :: "jsnum option"
  e_category :: string
  e_date :: string

text \<open>The state of the component.\<close>

record budget_overview =
  expenses :: "expense list"
  currentInitialBudget :: jsnum
  editingBudget :: bool
  newBudgetAmount :: jsnum
  budgetCategories :: "budget_category list"





text \<open>
  A missing amount as an operand of \<open>+\<close> is \<open>NaN\<close>. The accumulator object of
  \<open>spentPerCategory\<close> is a finite map from category names to numbers; names that collide
  with members inherited from \<open>Object.prototype\<close> (such as \<open>constructor\<close>) are outside
  this model.
\<close>

fun to_number :: "jsnum option \<Rightarrow> jsnum" where
  "to_number None = NaN"
| "to_number (Some x) = x"

text \<open>The reducer: \<open>acc[expense.category] = (acc[expense.category] || 0) + expense.amount\<close>.\<close>

definition spent_step :: "(string \<rightharpoonup> jsnum) \<Rightarrow> expense \<Rightarrow> (string \<rightharpoonup> jsnum)" where
  "spent_step acc expense =
     acc(e_category expense \<mapsto>
           js_add (field_or0 (acc (e_category expense))) (to_number (e_amount expense)))"

definition spentPerCategory :: "expense list \<Rightarrow> (string \<rightharpoonup> jsnum)" where
  "spentPerCategory es = foldl spent_step Map.empty es"




text \<open>The figures of one category card: \<open>allocated\<close>, \<open>spent\<close> and \<open>remaining\<close>.\<close>

definition category_allocated :: "budget_category \<Rightarrow> jsnum" where
  "category_allocated cat = or0 (cat_allocatedAmount cat)"

definition category_spent :: "budget_overview \<Rightarrow> budget_category \<Rightarrow> jsnum" where
  "category_spent st cat = field_or0 (spentPerCategory (expenses st) (cat_name cat))"

definition category_remaining :: "budget_overview \<Rightarrow> budget_category \<Rightarrow> jsnum" where
  "category_remaining st cat = js_sub (category_allocated cat) (category_spent st cat)"



section \<open>script.js: the budget view\<close>

text \<open>
  A value read from a document or held by an input element: missing, a number, or a
  string. The \<open>value\<close> of an input is a string in the browser; after \<open>input.value = n\<close>
  with a number \<open>n\<close> it is the text of \<open>n\<close>, which \<open>parseFloat\<close> reads back as \<open>n\<close>, so
  such a value is kept as \<open>JNumber n\<close>, and text typed by the user as \<open>JString\<close>.
\<close>

datatype jsval = JUndefined | JNumber jsnum | JString string

fun parseFloat_val :: "jsval \<Rightarrow> jsnum" where
  "parseFloat_val JUndefined = NaN"
| "parseFloat_val (JNumber n) = n"
| "parseFloat_val (JString s) = parseFloat s"


record tx_doc =
  tx_description :: string
  tx_amount :: jsval
  tx_date :: string
  tx_category :: string
  tx_type :: string
  tx_createdAt :: "string option"

text \<open>
  The elements of the budget view that the listeners change: the two inputs, the
  percentage text, the width and the colour of the progress bar, the last budget alert,
  the rows of category inputs (name and amount) and the currency select. The table of
  transactions and the options of the category select are rendering only and are left
  out.
\<close>

record budget_view =
  totalBudgetInput :: jsval
  budgetSpentInput :: jsval
  budgetPercentageSpan :: string
  budgetProgressBar_width :: jsnum
  budgetProgressBar_red :: bool
  budgetAlert :: "string option"
  categoryRows :: "(string \<times> jsval) list"
  currencySymbolSelect :: string










definition saveBudgetCategories :: "budget_view \<Rightarrow> (string \<times> jsval) list" where
  "saveBudgetCategories v =
     map (\<lambda>(name, amount). (trim name, JNumber (or0 (parseFloat_val amount))))
         (filter (\<lambda>(name, amount). trim name \<noteq> []) (categoryRows v))"




section \<open>The earlier devhub.js: its budget view\<close>



section \<open>script.js: the transaction form\<close>

record app_globals =
  g_db :: bool
  currentUserId :: "string option"
  currentProjectId :: "string option"
  isEditingTransaction :: bool
  currentEditingTransactionId :: "string option"

definition truthy_opt :: "string option \<Rightarrow> bool" where
  "truthy_opt x = (case x of None \<Rightarrow> False | Some s \<Rightarrow> truthy s)"

record transaction_form =
  transactionDescriptionInput :: string
  transactionAmountInput :: string
  transactionDateInput :: string
  transactionCategorySelect :: string
  transactionTypeExpenseRadio :: bool

definition transaction_amount :: "transaction_form \<Rightarrow> jsnum" where
  "transaction_amount f = or0 (parseFloat (transactionAmountInput f))"

definition transactionData :: "transaction_form \<Rightarrow> tx_doc" where
  "transactionData f =
     \<lparr>tx_description = trim (transactionDescriptionInput f),
      tx_amount = JNumber (transaction_amount f),
      tx_date = transactionDateInput f,
      tx_category = transactionCategorySelect f,
      tx_type = (if transactionTypeExpenseRadio f then ''expense'' else ''income''),
      tx_createdAt = None\<rparr>"

text \<open>
  The transactions collection: documents with their ids. \<open>addDoc\<close> appends a document
  under the id that the database chooses; \<open>updateDoc\<close> replaces the five fields of the
  form in the document with the given id and fails when there is none.
\<close>

type_synonym tx_collection = "(string \<times> tx_doc) list"

definition addDoc_tx :: "string \<Rightarrow> tx_doc \<Rightarrow> tx_collection \<Rightarrow> tx_collection" where
  "addDoc_tx newId d coll = coll @ [(newId, d)]"

definition merge_tx :: "tx_doc \<Rightarrow> tx_doc \<Rightarrow> tx_doc" where
  "merge_tx d old = d\<lparr>tx_createdAt := tx_createdAt old\<rparr>"

definition updateDoc_tx :: "string \<Rightarrow> tx_doc \<Rightarrow> tx_collection \<Rightarrow> tx_collection option" where
  "updateDoc_tx tid d coll =
     (if tid \<in> set (map fst coll)
      then Some (map (\<lambda>(i, old). if i = tid then (i, merge_tx d old) else (i, old)) coll)
      else None)"

text \<open>The test \<open>isEditingTransaction && currentEditingTransactionId\<close> and the id it yields.\<close>

definition editing_id :: "app_globals \<Rightarrow> string option" where
  "editing_id g =
     (if isEditingTransaction g
      then (case currentEditingTransactionId g of
              None \<Rightarrow> None
            | Some tid \<Rightarrow> if truthy tid then Some tid else None)
      else None)"

text \<open>
  \<open>handleTransactionFormSubmission\<close>. \<open>online\<close> says whether the database takes the write,
  \<open>newId\<close> is the id it gives to an added document, \<open>now\<close> is the time stamp string.
\<close>

definition handleTransactionFormSubmission ::
  "app_globals \<Rightarrow> bool \<Rightarrow> string \<Rightarrow> string \<Rightarrow> transaction_form \<Rightarrow> tx_collection
     \<Rightarrow> outcome \<times> tx_collection" where
  "handleTransactionFormSubmission g online newId now f coll =
     (if \<not> truthy_opt (currentProjectId g) \<or> \<not> g_db g \<or> \<not> truthy_opt (currentUserId g)
      then (NotReady, coll)
      else if \<not> truthy (tx_description (transactionData f))
              \<or> js_le (transaction_amount f) (Num 0)
              \<or> \<not> truthy (tx_date (transactionData f))
      then (ValidationError, coll)
      else case editing_id g of
             Some tid \<Rightarrow>
               (case (if online then updateDoc_tx tid (transactionData f) coll else None) of
                  None \<Rightarrow> (WriteFailed, coll)
                | Some coll' \<Rightarrow> (Success, coll'))
           | None \<Rightarrow>
               if online
               then (Success, addDoc_tx newId ((transactionData f)\<lparr>tx_createdAt := Some now\<rparr>) coll)
               else (WriteFailed, coll))"

text \<open>Concrete inputs used to run the effect.\<close>

definition demo_ctx :: firebase_ctx where
  "demo_ctx = \<lparr>db = True, firebaseUser = Some ''user-1'', appId = ''devhub''\<rparr>"


definition demo_task :: "string \<Rightarrow> task" where
  "demo_task s =
     \<lparr>t_name = ''Implement Jump Mechanic'', t_description = [], t_assignee = ''Unassigned'',
      t_dueDate = None, t_priority = ''Medium'', t_role = ''General'', t_status = s,
      t_createdAt = 0, t_createdBy = ''user-1''\<rparr>"

definition demo_project_form :: create_project_form where
  "demo_project_form =
     \<lparr>cp_projectName = ''Pixel Tycoon'', cp_description = ''A tycoon game'',
      cp_targetReleaseDate = ''2025-12-01'', cp_initialBudget = ''abc''\<rparr>"

definition demo_task_form :: create_task_form where
  "demo_task_form =
     \<lparr>ct_taskName = ''Implement Jump Mechanic'', ct_description = [], ct_assignee = [],
      ct_dueDate = [], ct_priority = ''Medium'', ct_role = ''General''\<rparr>"

definition accept_all :: "db_write \<Rightarrow> bool" where
  "accept_all w = True"



definition demo_tx :: "string \<Rightarrow> jsval \<Rightarrow> tx_doc" where
  "demo_tx ty amt =
     \<lparr>tx_description = ''Sound pack'', tx_amount = amt, tx_date = ''2025-01-15'',
      tx_category = ''Development'', tx_type = ty, tx_createdAt = None\<rparr>"

definition demo_globals :: app_globals where
  "demo_globals =
     \<lparr>g_db = True, currentUserId = Some ''user-1'', currentProjectId = Some ''proj-1'',
      isEditingTransaction = False, currentEditingTransactionId = None\<rparr>"

definition demo_tx_form :: "string \<Rightarrow> transaction_form" where
  "demo_tx_form descr =
     \<lparr>transactionDescriptionInput = descr, transactionAmountInput = ''12.5'',
      transactionDateInput = ''2025-01-15'', transactionCategorySelect = ''Development'',
      transactionTypeExpenseRadio = True\<rparr>"



section \<open>Verification: project progress\<close>












section \<open>Verification: project creation\<close>

lemma perform_subset: "set (fst (perform accepts ws)) \<subseteq> set ws"
  by (induction ws) auto

lemma parseFloat_empty: "parseFloat [] = NaN"
  by (simp add: parseFloat_def)

lemma new_project_defaults:
  "p_status (new_project c now f) = ''Planning''
   \<and> p_progress (new_project c now f) = ''0%''
   \<and> p_teamMembers (new_project c now f)
        = [\<lparr>tm_userId = uid c, tm_role = ''Owner'', tm_displayName = ''You''\<rparr>]
   \<and> p_budgetCategories (new_project c now f)
        = [\<lparr>cat_name = ''General'', cat_allocatedAmount = p_initialBudget (new_project c now f)\<rparr>]
   \<and> p_initialBudget (new_project c now f) = or0 (parseFloat (cp_initialBudget f))"
  by (simp add: new_project_def)

lemma create_project_writes:
  "AddProject p \<in> set (fst (CreateProjectForm_handleSubmit c accepts newId now1 now2 f))
     \<Longrightarrow> p = new_project c now1 f"
proof -
  assume a: "AddProject p \<in> set (fst (CreateProjectForm_handleSubmit c accepts newId now1 now2 f))"
  let ?ws = "[AddProject (new_project c now1 f), AddActivityLog newId (project_created_log c now2 f)]"
  from a have "AddProject p \<in> set (fst (perform accepts ?ws))"
    by (simp add: CreateProjectForm_handleSubmit_def Let_def split: if_splits)
  with perform_subset [of accepts ?ws] have "AddProject p \<in> set ?ws" by blast
  then show ?thesis by simp
qed

lemma create_project_success:
  "snd (CreateProjectForm_handleSubmit c accepts newId now1 now2 f) = Success \<Longrightarrow>
     fst (CreateProjectForm_handleSubmit c accepts newId now1 now2 f)
       = [AddProject (new_project c now1 f), AddActivityLog newId (project_created_log c now2 f)]"
  by (auto simp: CreateProjectForm_handleSubmit_def Let_def split: if_splits)

lemma create_project_accepted:
  "db c \<Longrightarrow> has_uid c \<Longrightarrow> accepts (AddProject (new_project c now1 f))
     \<Longrightarrow> accepts (AddActivityLog newId (project_created_log c now2 f))
     \<Longrightarrow> snd (CreateProjectForm_handleSubmit c accepts newId now1 now2 f) = Success"
  by (simp add: CreateProjectForm_handleSubmit_def Let_def)

text \<open>
  C8. Every project document that the create-project form writes has status
  \<open>Planning\<close>, progress \<open>0%\<close>, a team roster of exactly one member (the creating user,
  role \<open>Owner\<close>) and exactly one budget category \<open>General\<close> whose allocated amount is the
  initial budget of the document, which is the number read from the budget field, and 0
  when the field is empty or holds no number. When the handler succeeds its writes are
  the project document followed by one \<open>Project Created\<close> activity log entry under the
  new project, and it succeeds whenever the user is signed in and the database accepts
  both writes.
\<close>

theorem create_project_defaults:
  "(\<forall>p. AddProject p \<in> set (fst (CreateProjectForm_handleSubmit c accepts newId now1 now2 f)) \<longrightarrow>
        p_status p = ''Planning'' \<and> p_progress p = ''0%''
        \<and> p_teamMembers p = [\<lparr>tm_userId = uid c, tm_role = ''Owner'', tm_displayName = ''You''\<rparr>]
        \<and> p_budgetCategories p = [\<lparr>cat_name = ''General'', cat_allocatedAmount = p_initialBudget p\<rparr>]
        \<and> p_initialBudget p = or0 (parseFloat (cp_initialBudget f))
        \<and> (parseFloat (cp_initialBudget f) = NaN \<longrightarrow> p_initialBudget p = Num 0))
   \<and> (snd (CreateProjectForm_handleSubmit c accepts newId now1 now2 f) = Success \<longrightarrow>
        (\<exists>p l. fst (CreateProjectForm_handleSubmit c accepts newId now1 now2 f)
                  = [AddProject p, AddActivityLog newId l]
               \<and> log_type l = ''Project Created'' \<and> log_userId l = uid c))
   \<and> (db c \<and> has_uid c \<and> accepts (AddProject (new_project c now1 f))
        \<and> accepts (AddActivityLog newId (project_created_log c now2 f)) \<longrightarrow>
        snd (CreateProjectForm_handleSubmit c accepts newId now1 now2 f) = Success)
   \<and> parseFloat [] = NaN"
proof (intro conjI allI impI)
  fix p
  assume "AddProject p \<in> set (fst (CreateProjectForm_handleSubmit c accepts newId now1 now2 f))"
  then have p: "p = new_project c now1 f" by (rule create_project_writes)
  note d = new_project_defaults [of c now1 f]
  show "p_status p = ''Planning''" using p d by simp
  show "p_progress p = ''0%''" using p d by simp
  show "p_teamMembers p = [\<lparr>tm_userId = uid c, tm_role = ''Owner'', tm_displayName = ''You''\<rparr>]"
    using p d by simp
  show "p_budgetCategories p = [\<lparr>cat_name = ''General'', cat_allocatedAmount = p_initialBudget p\<rparr>]"
    using p d by simp
  show "p_initialBudget p = or0 (parseFloat (cp_initialBudget f))" using p d by simp
  assume "parseFloat (cp_initialBudget f) = NaN"
  then show "p_initialBudget p = Num 0" using p d by simp
next
  assume "snd (CreateProjectForm_handleSubmit c accepts newId now1 now2 f) = Success"
  then have "fst (CreateProjectForm_handleSubmit c accepts newId now1 now2 f)
       = [AddProject (new_project c now1 f), AddActivityLog newId (project_created_log c now2 f)]"
    by (rule create_project_success)
  moreover have "log_type (project_created_log c now2 f) = ''Project Created''
      \<and> log_userId (project_created_log c now2 f) = uid c"
    by (simp add: project_created_log_def)
  ultimately show "\<exists>p l. fst (CreateProjectForm_handleSubmit c accepts newId now1 now2 f)
                  = [AddProject p, AddActivityLog newId l]
               \<and> log_type l = ''Project Created'' \<and> log_userId l = uid c"
    by blast
next
  assume "db c \<and> has_uid c \<and> accepts (AddProject (new_project c now1 f))
        \<and> accepts (AddActivityLog newId (project_created_log c now2 f))"
  then show "snd (CreateProjectForm_handleSubmit c accepts newId now1 now2 f) = Success"
    using create_project_accepted by blast
next
  show "parseFloat [] = NaN" by (rule parseFloat_empty)
qed

lemma demo_signed_in: "db demo_ctx \<and> has_uid demo_ctx"
  by (simp add: demo_ctx_def has_uid_def truthy_def)

lemma demo_budget_not_a_number: "parseFloat (cp_initialBudget demo_project_form) = NaN"
  by code_simp

theorem create_project_defaults_witness:
  "snd (CreateProjectForm_handleSubmit demo_ctx accept_all ''proj-1'' 1 2 demo_project_form) = Success
   \<and> AddProject (new_project demo_ctx 1 demo_project_form)
       \<in> set (fst (CreateProjectForm_handleSubmit demo_ctx accept_all ''proj-1'' 1 2 demo_project_form))
   \<and> p_initialBudget (new_project demo_ctx 1 demo_project_form) = Num 0
   \<and> p_budgetCategories (new_project demo_ctx 1 demo_project_form)
       = [\<lparr>cat_name = ''General'', cat_allocatedAmount = Num 0\<rparr>]"
proof -
  note t = create_project_defaults [of demo_ctx accept_all "''proj-1''" 1 2 demo_project_form]
  have s: "snd (CreateProjectForm_handleSubmit demo_ctx accept_all ''proj-1'' 1 2 demo_project_form) = Success"
    using t demo_signed_in by (simp add: accept_all_def)
  have m: "AddProject (new_project demo_ctx 1 demo_project_form)
       \<in> set (fst (CreateProjectForm_handleSubmit demo_ctx accept_all ''proj-1'' 1 2 demo_project_form))"
    using s by (simp add: create_project_success)
  from t m have
    "p_budgetCategories (new_project demo_ctx 1 demo_project_form)
        = [\<lparr>cat_name = ''General'',
            cat_allocatedAmount = p_initialBudget (new_project demo_ctx 1 demo_project_form)\<rparr>]
     \<and> (parseFloat (cp_initialBudget demo_project_form) = NaN \<longrightarrow>
          p_initialBudget (new_project demo_ctx 1 demo_project_form) = Num 0)"
    by blast
  with demo_budget_not_a_number s m show ?thesis by simp
qed

section \<open>Verification: task statuses\<close>

lemma modal_status_origin:
  "(md_task (foldl modal_step m0 evs) = md_task m0 \<and> editStatus (foldl modal_step m0 evs) = editStatus m0)
   \<or> editStatus (foldl modal_step m0 evs) \<in> set statusOptions
   \<or> (\<exists>t. Snapshot t \<in> set evs \<and> editStatus (foldl modal_step m0 evs) = t_status t)"
proof (induction evs rule: rev_induct)
  case Nil
  then show ?case by simp
next
  case (snoc ev evs)
  show ?case
  proof (cases ev)
    case (Snapshot t)
    then show ?thesis by auto
  next
    case (SelectStatus i)
    then show ?thesis using snoc by auto
  qed (use snoc in auto)
qed

lemma create_task_status:
  assumes "w \<in> set (fst (CreateTaskForm_handleSubmit c accepts projectId now1 now2 f))"
    and "stored_status w = Some s"
  shows "s = ''To Do''"
proof -
  let ?ws = "[AddTask projectId (new_task c now1 f),
              AddActivityLog projectId
                \<lparr>log_timestamp = now2, log_type = ''Task Created'',
                 log_description = ''New task '' @ quoted (ct_taskName f)
                    @ '' created under '' @ ct_role f @ '' role.'',
                 log_userId = uid c\<rparr>]"
  from assms(1) have "w \<in> set (fst (perform accepts ?ws))"
    by (simp add: CreateTaskForm_handleSubmit_def Let_def split: if_splits)
  with perform_subset [of accepts ?ws] have "w \<in> set ?ws" by blast
  with assms(2) show ?thesis by (auto simp: new_task_def)
qed

lemma task_change_logs_no_status:
  "x \<in> set (task_change_logs c projectId now task m) \<Longrightarrow> stored_status x = None"
  by (auto simp: task_change_logs_def Let_def split: if_splits)

lemma update_task_status:
  assumes "w \<in> set (fst (handleUpdateTask c accepts projectId taskId now m))"
    and "stored_status w = Some s"
  shows "s = editStatus m \<and> md_task m \<noteq> None"
proof (cases "md_task m")
  case None
  with assms(1) show ?thesis by (simp add: handleUpdateTask_def split: if_splits)
next
  case (Some task)
  let ?ws = "UpdateTask projectId taskId (task_update_of now m) # task_change_logs c projectId now task m"
  from assms(1) Some have "w \<in> set (fst (perform accepts ?ws))"
    by (simp add: handleUpdateTask_def Let_def split: if_splits)
  with perform_subset [of accepts ?ws] have "w \<in> set ?ws" by blast
  with assms(2) task_change_logs_no_status [of w c projectId now task m]
  have "w = UpdateTask projectId taskId (task_update_of now m)" by auto
  with assms(2) Some show ?thesis by (simp add: task_update_of_def)
qed

text \<open>
  C7 as stated fails: picking the third option of the status select of the task modal
  and saving stores \<open>Ready for Review\<close>, which is none of To Do, In Progress, Reviewing,
  Completed, Blocked, Done.
\<close>

theorem task_status_enumeration_counterexample:
  "map stored_status
     (fst (handleUpdateTask demo_ctx accept_all ''proj-1'' ''task-1'' 7
             (modal_run [Snapshot (demo_task ''To Do''), SelectStatus 2])))
     = [Some ''Ready for Review'', None]
   \<and> ''Ready for Review'' \<notin> set spec_statuses"
  by (simp add: handleUpdateTask_def modal_run_def initial_modal_def demo_ctx_def has_uid_def
      truthy_def accept_all_def demo_task_def statusOptions_def task_update_of_def
      task_change_logs_def edited_dueDate_def spec_statuses_def Let_def)

text \<open>
  C7, amended. The create-task form stores the status \<open>To Do\<close> on every task it adds.
  The task modal stores, on every task it updates, either one of its four options
  To Do, In Progress, Ready for Review, Completed, or the status that the snapshot
  listener delivered with the task document.
\<close>

theorem task_status_written:
  "(\<forall>w \<in> set (fst (CreateTaskForm_handleSubmit c accepts projectId now1 now2 f)).
       \<forall>s. stored_status w = Some s \<longrightarrow> s = ''To Do'')
   \<and> (\<forall>w \<in> set (fst (handleUpdateTask c accepts projectId taskId now (modal_run evs))).
       \<forall>s. stored_status w = Some s \<longrightarrow>
         s \<in> set [''To Do'', ''In Progress'', ''Ready for Review'', ''Completed'']
         \<or> (\<exists>t. Snapshot t \<in> set evs \<and> s = t_status t))"
proof (intro conjI ballI allI impI)
  fix w s
  assume "w \<in> set (fst (CreateTaskForm_handleSubmit c accepts projectId now1 now2 f))"
    and "stored_status w = Some s"
  then show "s = ''To Do''" by (rule create_task_status)
next
  fix w s
  assume "w \<in> set (fst (handleUpdateTask c accepts projectId taskId now (modal_run evs)))"
    and "stored_status w = Some s"
  then have s: "s = editStatus (modal_run evs)" and t: "md_task (modal_run evs) \<noteq> None"
    using update_task_status by blast+
  from modal_status_origin [of initial_modal evs] t
  have "editStatus (modal_run evs) \<in> set statusOptions
      \<or> (\<exists>t. Snapshot t \<in> set evs \<and> editStatus (modal_run evs) = t_status t)"
    by (auto simp: modal_run_def initial_modal_def)
  with s show "s \<in> set [''To Do'', ''In Progress'', ''Ready for Review'', ''Completed'']
         \<or> (\<exists>t. Snapshot t \<in> set evs \<and> s = t_status t)"
    by (simp add: statusOptions_def)
qed

theorem task_status_written_witness:
  "UpdateTask ''proj-1'' ''task-1''
      (task_update_of 7 (modal_run [Snapshot (demo_task ''Reviewing''), SetEditName ''Jump'']))
     \<in> set (fst (handleUpdateTask demo_ctx accept_all ''proj-1'' ''task-1'' 7
                 (modal_run [Snapshot (demo_task ''Reviewing''), SetEditName ''Jump''])))
   \<and> u_status (task_update_of 7 (modal_run [Snapshot (demo_task ''Reviewing''), SetEditName ''Jump'']))
       = ''Reviewing''
   \<and> Snapshot (demo_task ''Reviewing'')
       \<in> set [Snapshot (demo_task ''Reviewing''), SetEditName ''Jump'']
   \<and> AddTask ''proj-1'' (new_task demo_ctx 1 demo_task_form)
       \<in> set (fst (CreateTaskForm_handleSubmit demo_ctx accept_all ''proj-1'' 1 2 demo_task_form))
   \<and> t_status (new_task demo_ctx 1 demo_task_form) = ''To Do''"
proof -
  let ?evs = "[Snapshot (demo_task ''Reviewing''), SetEditName ''Jump'']"
  let ?w = "UpdateTask ''proj-1'' ''task-1'' (task_update_of 7 (modal_run ?evs))"
  let ?a = "AddTask ''proj-1'' (new_task demo_ctx 1 demo_task_form)"
  note t = task_status_written [of demo_ctx accept_all "''proj-1''" 1 2 demo_task_form
             "''task-1''" 7 ?evs]
  have m: "?w \<in> set (fst (handleUpdateTask demo_ctx accept_all ''proj-1'' ''task-1'' 7 (modal_run ?evs)))"
    by (simp add: handleUpdateTask_def modal_run_def initial_modal_def demo_ctx_def has_uid_def
        truthy_def accept_all_def demo_task_def Let_def)
  have a: "?a \<in> set (fst (CreateTaskForm_handleSubmit demo_ctx accept_all ''proj-1'' 1 2 demo_task_form))"
    by (simp add: CreateTaskForm_handleSubmit_def demo_ctx_def has_uid_def truthy_def
        accept_all_def Let_def)
  have u: "u_status (task_update_of 7 (modal_run ?evs)) = ''Reviewing''"
    by (simp add: task_update_of_def modal_run_def demo_task_def)
  have "stored_status ?a = Some (t_status (new_task demo_ctx 1 demo_task_form))" by simp
  with t a have c: "t_status (new_task demo_ctx 1 demo_task_form) = ''To Do''" by blast
  from m u a c show ?thesis by simp
qed

section \<open>Verification: the budget overview\<close>

















section \<open>Verification: rescaling the categories\<close>










section \<open>Verification: the percentage of the budget\<close>













section \<open>Verification: the spent total\<close>













section \<open>Verification: the transaction form\<close>

lemma or0_not_positive: "x = NaN \<or> js_le x (Num 0) \<Longrightarrow> js_le (or0 x) (Num 0)"
  by (cases x) auto

lemma submission_invalid:
  assumes "truthy_opt (currentProjectId g)" and "g_db g" and "truthy_opt (currentUserId g)"
    and "trim (transactionDescriptionInput f) = []
         \<or> parseFloat (transactionAmountInput f) = NaN
         \<or> js_le (parseFloat (transactionAmountInput f)) (Num 0)
         \<or> transactionDateInput f = []"
  shows "handleTransactionFormSubmission g online newId now f coll = (ValidationError, coll)"
proof -
  have "\<not> truthy (tx_description (transactionData f))
        \<or> js_le (transaction_amount f) (Num 0)
        \<or> \<not> truthy (tx_date (transactionData f))"
    using assms(4) or0_not_positive [of "parseFloat (transactionAmountInput f)"]
    by (auto simp: transactionData_def transaction_amount_def truthy_def)
  then show ?thesis using assms(1-3)
    by (simp add: handleTransactionFormSubmission_def)
qed

lemma submission_valid:
  assumes "truthy_opt (currentProjectId g)" and "g_db g" and "truthy_opt (currentUserId g)"
    and "trim (transactionDescriptionInput f) \<noteq> []"
    and "parseFloat (transactionAmountInput f) = Num a" and "0 < a"
    and "transactionDateInput f \<noteq> []"
  shows "handleTransactionFormSubmission g online newId now f coll =
     (case editing_id g of
        Some tid \<Rightarrow>
          (case (if online then updateDoc_tx tid (transactionData f) coll else None) of
             None \<Rightarrow> (WriteFailed, coll)
           | Some coll' \<Rightarrow> (Success, coll'))
      | None \<Rightarrow>
          if online
          then (Success, addDoc_tx newId ((transactionData f)\<lparr>tx_createdAt := Some now\<rparr>) coll)
          else (WriteFailed, coll))"
proof -
  have "transaction_amount f = Num a"
    using assms(5,6) by (simp add: transaction_amount_def)
  then have "\<not> (\<not> truthy (tx_description (transactionData f))
        \<or> js_le (transaction_amount f) (Num 0)
        \<or> \<not> truthy (tx_date (transactionData f)))"
    using assms(4,6,7) by (simp add: transactionData_def truthy_def)
  then show ?thesis using assms(1-3)
    by (simp add: handleTransactionFormSubmission_def)
qed

lemma transactionData_valid:
  assumes "parseFloat (transactionAmountInput f) = Num a" and "0 < a"
  shows "transactionData f =
     \<lparr>tx_description = trim (transactionDescriptionInput f),
      tx_amount = JNumber (Num a),
      tx_date = transactionDateInput f,
      tx_category = transactionCategorySelect f,
      tx_type = (if transactionTypeExpenseRadio f then ''expense'' else ''income''),
      tx_createdAt = None\<rparr>"
  using assms by (simp add: transactionData_def transaction_amount_def)

lemma no_write_unless_success:
  "fst (handleTransactionFormSubmission g online newId now f coll) \<noteq> Success
     \<Longrightarrow> snd (handleTransactionFormSubmission g online newId now f coll) = coll"
  by (auto simp: handleTransactionFormSubmission_def split: if_splits option.splits)

text \<open>
  C9 as stated fails. With the description \<open> rent\<close> (a leading blank), the amount 12.5
  and a date, the document that is added carries \<open>rent\<close>, not the description as it was
  entered; and with a description of two blanks, which is not empty, and the same valid
  amount and date, the submission ends with the validation error and adds nothing.
\<close>

theorem transaction_form_counterexample:
  "map (\<lambda>d. tx_description (snd d))
       (snd (handleTransactionFormSubmission demo_globals True ''tx-1'' ''2025-01-15T10:00:00.000Z''
               (demo_tx_form '' rent'') []))
     = [''rent'']
   \<and> transactionDescriptionInput (demo_tx_form '' rent'') = '' rent''
   \<and> '' rent'' \<noteq> ''rent''
   \<and> transactionDescriptionInput (demo_tx_form ''  '') \<noteq> []
   \<and> handleTransactionFormSubmission demo_globals True ''tx-1'' ''2025-01-15T10:00:00.000Z''
        (demo_tx_form ''  '') [] = (ValidationError, [])"
proof (intro conjI)
  show "map (\<lambda>d. tx_description (snd d))
       (snd (handleTransactionFormSubmission demo_globals True ''tx-1'' ''2025-01-15T10:00:00.000Z''
               (demo_tx_form '' rent'') []))
     = [''rent'']"
    by code_simp
  show "transactionDescriptionInput (demo_tx_form '' rent'') = '' rent''"
    by (simp add: demo_tx_form_def)
  show "'' rent'' \<noteq> ''rent''" by simp
  show "transactionDescriptionInput (demo_tx_form ''  '') \<noteq> []"
    by (simp add: demo_tx_form_def)
  show "handleTransactionFormSubmission demo_globals True ''tx-1'' ''2025-01-15T10:00:00.000Z''
        (demo_tx_form ''  '') [] = (ValidationError, [])"
    by code_simp
qed

text \<open>
  C9, amended. With a project selected and the user signed in: a submission whose
  description is empty after trimming, whose amount is no number or not positive, or
  whose date is empty ends with the validation error and leaves the transactions
  collection unchanged. A submission whose three fields are valid, when the database
  takes the write, adds exactly one document at the end of the collection (not editing)
  or replaces the fields of the document being edited and of no other (editing an
  existing document): it carries the trimmed description, the amount, the date, the
  category and the type \<open>expense\<close> or \<open>income\<close> according to the radio button. Whenever
  the submission does not succeed the collection is unchanged.
\<close>

theorem transaction_form_submission:
  assumes "truthy_opt (currentProjectId g)" and "g_db g" and "truthy_opt (currentUserId g)"
  shows "(trim (transactionDescriptionInput f) = []
            \<or> parseFloat (transactionAmountInput f) = NaN
            \<or> js_le (parseFloat (transactionAmountInput f)) (Num 0)
            \<or> transactionDateInput f = []
          \<longrightarrow> handleTransactionFormSubmission g online newId now f coll = (ValidationError, coll))
       \<and> (trim (transactionDescriptionInput f) \<noteq> []
            \<and> parseFloat (transactionAmountInput f) = Num a \<and> 0 < a
            \<and> transactionDateInput f \<noteq> [] \<and> online
          \<longrightarrow> (editing_id g = None \<longrightarrow>
                 handleTransactionFormSubmission g online newId now f coll =
                   (Success, coll @ [(newId,
                      \<lparr>tx_description = trim (transactionDescriptionInput f),
                       tx_amount = JNumber (Num a),
                       tx_date = transactionDateInput f,
                       tx_category = transactionCategorySelect f,
                       tx_type = (if transactionTypeExpenseRadio f then ''expense'' else ''income''),
                       tx_createdAt = Some now\<rparr>)]))
              \<and> (\<forall>tid. editing_id g = Some tid \<and> tid \<in> set (map fst coll) \<longrightarrow>
                   handleTransactionFormSubmission g online newId now f coll =
                     (Success,
                      map (\<lambda>(i, old). if i = tid
                             then (i, \<lparr>tx_description = trim (transactionDescriptionInput f),
                                       tx_amount = JNumber (Num a),
                                       tx_date = transactionDateInput f,
                                       tx_category = transactionCategorySelect f,
                                       tx_type = (if transactionTypeExpenseRadio f
                                                  then ''expense'' else ''income''),
                                       tx_createdAt = tx_createdAt old\<rparr>)
                             else (i, old)) coll)))
       \<and> (fst (handleTransactionFormSubmission g online newId now f coll) \<noteq> Success
          \<longrightarrow> snd (handleTransactionFormSubmission g online newId now f coll) = coll)"
proof (intro conjI impI allI)
  assume "trim (transactionDescriptionInput f) = []
            \<or> parseFloat (transactionAmountInput f) = NaN
            \<or> js_le (parseFloat (transactionAmountInput f)) (Num 0)
            \<or> transactionDateInput f = []"
  with assms show "handleTransactionFormSubmission g online newId now f coll = (ValidationError, coll)"
    by (rule submission_invalid)
next
  assume v: "trim (transactionDescriptionInput f) \<noteq> []
            \<and> parseFloat (transactionAmountInput f) = Num a \<and> 0 < a
            \<and> transactionDateInput f \<noteq> [] \<and> online"
    and e: "editing_id g = None"
  from v have d: "transactionData f =
     \<lparr>tx_description = trim (transactionDescriptionInput f), tx_amount = JNumber (Num a),
      tx_date = transactionDateInput f, tx_category = transactionCategorySelect f,
      tx_type = (if transactionTypeExpenseRadio f then ''expense'' else ''income''),
      tx_createdAt = None\<rparr>"
    using transactionData_valid by blast
  from assms v have "handleTransactionFormSubmission g online newId now f coll =
     (case editing_id g of
        Some tid \<Rightarrow>
          (case (if online then updateDoc_tx tid (transactionData f) coll else None) of
             None \<Rightarrow> (WriteFailed, coll)
           | Some coll' \<Rightarrow> (Success, coll'))
      | None \<Rightarrow>
          if online
          then (Success, addDoc_tx newId ((transactionData f)\<lparr>tx_createdAt := Some now\<rparr>) coll)
          else (WriteFailed, coll))"
    using submission_valid by blast
  with v e show "handleTransactionFormSubmission g online newId now f coll =
                   (Success, coll @ [(newId,
                      \<lparr>tx_description = trim (transactionDescriptionInput f),
                       tx_amount = JNumber (Num a),
                       tx_date = transactionDateInput f,
                       tx_category = transactionCategorySelect f,
                       tx_type = (if transactionTypeExpenseRadio f then ''expense'' else ''income''),
                       tx_createdAt = Some now\<rparr>)])"
    by (simp add: d addDoc_tx_def)
next
  fix tid
  assume v: "trim (transactionDescriptionInput f) \<noteq> []
            \<and> parseFloat (transactionAmountInput f) = Num a \<and> 0 < a
            \<and> transactionDateInput f \<noteq> [] \<and> online"
    and e: "editing_id g = Some tid \<and> tid \<in> set (map fst coll)"
  from v have d: "transactionData f =
     \<lparr>tx_description = trim (transactionDescriptionInput f), tx_amount = JNumber (Num a),
      tx_date = transactionDateInput f, tx_category = transactionCategorySelect f,
      tx_type = (if transactionTypeExpenseRadio f then ''expense'' else ''income''),
      tx_createdAt = None\<rparr>"
    using transactionData_valid by blast
  from assms v have "handleTransactionFormSubmission g online newId now f coll =
     (case editing_id g of
        Some tid \<Rightarrow>
          (case (if online then updateDoc_tx tid (transactionData f) coll else None) of
             None \<Rightarrow> (WriteFailed, coll)
           | Some coll' \<Rightarrow> (Success, coll'))
      | None \<Rightarrow>
          if online
          then (Success, addDoc_tx newId ((transactionData f)\<lparr>tx_createdAt := Some now\<rparr>) coll)
          else (WriteFailed, coll))"
    using submission_valid by blast
  with v e show "handleTransactionFormSubmission g online newId now f coll =
                     (Success,
                      map (\<lambda>(i, old). if i = tid
                             then (i, \<lparr>tx_description = trim (transactionDescriptionInput f),
                                       tx_amount = JNumber (Num a),
                                       tx_date = transactionDateInput f,
                                       tx_category = transactionCategorySelect f,
                                       tx_type = (if transactionTypeExpenseRadio f
                                                  then ''expense'' else ''income''),
                                       tx_createdAt = tx_createdAt old\<rparr>)
                             else (i, old)) coll)"
    by (simp add: d updateDoc_tx_def merge_tx_def cong: if_cong)
next
  assume "fst (handleTransactionFormSubmission g online newId now f coll) \<noteq> Success"
  then show "snd (handleTransactionFormSubmission g online newId now f coll) = coll"
    by (rule no_write_unless_success)
qed

lemma demo_globals_ready:
  "truthy_opt (currentProjectId demo_globals) \<and> g_db demo_globals
   \<and> truthy_opt (currentUserId demo_globals) \<and> editing_id demo_globals = None"
  by (simp add: demo_globals_def truthy_opt_def truthy_def editing_id_def)

lemma demo_tx_form_valid:
  "trim (transactionDescriptionInput (demo_tx_form '' rent'')) = ''rent''
   \<and> parseFloat (transactionAmountInput (demo_tx_form '' rent'')) = Num (25 / 2)
   \<and> transactionDateInput (demo_tx_form '' rent'') = ''2025-01-15''
   \<and> transactionCategorySelect (demo_tx_form '' rent'') = ''Development''
   \<and> transactionTypeExpenseRadio (demo_tx_form '' rent'')"
  by code_simp

theorem transaction_form_submission_witness:
  "truthy_opt (currentProjectId demo_globals) \<and> g_db demo_globals
   \<and> truthy_opt (currentUserId demo_globals)
   \<and> handleTransactionFormSubmission demo_globals True ''tx-2'' ''2025-01-15T10:00:00.000Z''
        (demo_tx_form '' rent'') [(''tx-1'', demo_tx ''income'' (JNumber (Num 500)))]
      = (Success, [(''tx-1'', demo_tx ''income'' (JNumber (Num 500))),
                   (''tx-2'', \<lparr>tx_description = ''rent'', tx_amount = JNumber (Num (25 / 2)),
                               tx_date = ''2025-01-15'', tx_category = ''Development'',
                               tx_type = ''expense'',
                               tx_createdAt = Some ''2025-01-15T10:00:00.000Z''\<rparr>)])"
proof -
  have r1: "truthy_opt (currentProjectId demo_globals)" and r2: "g_db demo_globals"
    and r3: "truthy_opt (currentUserId demo_globals)" and e: "editing_id demo_globals = None"
    using demo_globals_ready by simp_all
  note t = transaction_form_submission [OF r1 r2 r3, of "demo_tx_form '' rent''" True
             "''tx-2''" "''2025-01-15T10:00:00.000Z''"
             "[(''tx-1'', demo_tx ''income'' (JNumber (Num 500)))]" "25 / 2"]
  from t e demo_tx_form_valid
  have "handleTransactionFormSubmission demo_globals True ''tx-2'' ''2025-01-15T10:00:00.000Z''
        (demo_tx_form '' rent'') [(''tx-1'', demo_tx ''income'' (JNumber (Num 500)))]
      = (Success, [(''tx-1'', demo_tx ''income'' (JNumber (Num 500)))] @
                  [(''tx-2'', \<lparr>tx_description = ''rent'', tx_amount = JNumber (Num (25 / 2)),
                               tx_date = ''2025-01-15'', tx_category = ''Development'',
                               tx_type = ''expense'',
                               tx_createdAt = Some ''2025-01-15T10:00:00.000Z''\<rparr>)])"
    by simp
  with r1 r2 r3 show ?thesis by simp
qed

end
